theory Spec2Isabelle
  imports Main
begin

section \<open>JavaScript values and array operations used by the server\<close>

text \<open>
  The handlers read \<open>req.body.username\<close>, \<open>req.body.token\<close> and \<open>req.user.username\<close>,
  which may hold any JSON value or be missing. The handlers only ever compare such a value
  with \<open>null\<close> (\<open>==\<close>) or with a string (\<open>===\<close>, \<open>!==\<close>, \<open>includes\<close>), so every value
  that is neither a string nor \<open>null\<close>/\<open>undefined\<close> (a number, a boolean, an array, an
  object) is kept as its JSON text under \<open>JOther\<close>.
\<close>

datatype jsvalue = JUndefined | JNull | JString string | JOther string

text \<open>A claims object such as \<open>{ username: username }\<close>: property names with their values.\<close>

type_synonym claims = "(string \<times> jsvalue) list"

text \<open>Property access \<open>obj.name\<close>: a missing property reads as \<open>undefined\<close>.\<close>

definition get_prop :: "claims \<Rightarrow> string \<Rightarrow> jsvalue" where
  "get_prop obj name = (case map_of obj name of None \<Rightarrow> JUndefined | Some v \<Rightarrow> v)"

text \<open>\<open>v == null\<close> holds for \<open>null\<close> and \<open>undefined\<close> only.\<close>

definition loose_null :: "jsvalue \<Rightarrow> bool" where
  "loose_null v = (v = JUndefined \<or> v = JNull)"

text \<open>\<open>s === v\<close> for a string \<open>s\<close>: true only when \<open>v\<close> is the same string.\<close>

definition strict_eq :: "string \<Rightarrow> jsvalue \<Rightarrow> bool" where
  "strict_eq s v = (v = JString s)"

text \<open>\<open>Array.prototype.includes\<close> on an array of strings.\<close>

definition array_includes :: "string list \<Rightarrow> jsvalue \<Rightarrow> bool" where
  "array_includes xs v = list_ex (\<lambda>s. strict_eq s v) xs"

text \<open>\<open>Array.prototype.push\<close>: appends at the end, whatever the array holds already.\<close>

definition push :: "string list \<Rightarrow> string \<Rightarrow> string list" where
  "push xs x = xs @ [x]"

text \<open>
  \<open>String.prototype.split\<close> with a one-character separator: the pieces between the
  separators, empty pieces included; a string without the separator is one piece.
\<close>

fun split :: "char \<Rightarrow> string \<Rightarrow> string list" where
  "split sep [] = [[]]"
| "split sep (c # cs) =
     (if c = sep then [] # split sep cs
      else (case split sep cs of [] \<Rightarrow> [[c]] | w # ws \<Rightarrow> (c # w) # ws))"

text \<open>
  \<open>authHeader && authHeader.split(' ')[1]\<close>: \<open>undefined\<close> for a missing header, the
  (falsy) empty string itself for an empty header, otherwise the second piece of the
  split, which is \<open>undefined\<close> when there is only one piece.
\<close>

definition header_token :: "string option \<Rightarrow> jsvalue" where
  "header_token authHeader =
     (case authHeader of
        None \<Rightarrow> JUndefined
      | Some h \<Rightarrow>
          if h = [] then JString []
          else (case split (CHR '' '') h of
                  _ # t # _ \<Rightarrow> JString t
                | _ \<Rightarrow> JUndefined))"

section \<open>The token library as the handlers use it\<close>

datatype VerifyError = MalformedToken | BadSignature | Expired

text \<open>
  \<open>jsonwebtoken\<close> is a dependency and not part of the repository, so the handlers take
  it as a parameter: \<open>sign payload secret expiresIn now\<close> (\<open>expiresIn\<close> in seconds,
  \<open>None\<close> when the option is not passed) and \<open>verify token secret now\<close>, where \<open>now\<close>
  is the clock in seconds. The callback of \<open>jwt.verify\<close> is modelled by the returned
  sum: \<open>Inl err\<close> for \<open>err\<close>, \<open>Inr data\<close> for the decoded payload.
\<close>

record jwt =
  sign :: "claims \<Rightarrow> string \<Rightarrow> nat option \<Rightarrow> nat \<Rightarrow> string"
  verify :: "string \<Rightarrow> string \<Rightarrow> nat \<Rightarrow> VerifyError + claims"

text \<open>\<open>jwt.verify\<close> applied to a JavaScript value: only a string can parse as a token.\<close>

definition verify_value :: "jwt \<Rightarrow> jsvalue \<Rightarrow> string \<Rightarrow> nat \<Rightarrow> VerifyError + claims" where
  "verify_value J v secret now =
     (case v of JString t \<Rightarrow> verify J t secret now | _ \<Rightarrow> Inl MalformedToken)"

section \<open>The token codec of the specification\<close>

text \<open>
  Modelled from the spec: the serialised form of a token. The \<open>jsonwebtoken\<close> package
  is not among the sources, and section 3 of the specification says only that a token
  is the serialisation of the claims, the expiration and an integrity tag. The format
  below writes every string with its length in front, so that reading is unambiguous.
  First the decimal numerals, used for the lengths and for the expiration time.
\<close>

definition digit_char :: "nat \<Rightarrow> char" where
  "digit_char d = ''0123456789'' ! d"

definition is_digit :: "char \<Rightarrow> bool" where
  "is_digit c = (c \<in> set ''0123456789'')"

definition digit_val :: "char \<Rightarrow> nat" where
  "digit_val c = of_char c - 48"

fun decimal :: "nat \<Rightarrow> string" where
  "decimal n =
     (if n < 10 then [digit_char n] else decimal (n div 10) @ [digit_char (n mod 10)])"

declare decimal.simps [simp del]

definition undecimal :: "string \<Rightarrow> nat" where
  "undecimal s = foldl (\<lambda>a c. 10 * a + digit_val c) 0 s"

text \<open>A number is written in decimal and closed by a colon.\<close>

definition put_nat :: "nat \<Rightarrow> string" where
  "put_nat n = decimal n @ '':''"

definition get_nat :: "string \<Rightarrow> (nat \<times> string) option" where
  "get_nat inp =
     (let ds = takeWhile is_digit inp in
      if ds = [] then None
      else (case dropWhile is_digit inp of
              [] \<Rightarrow> None
            | c # rest \<Rightarrow> if c = CHR '':'' then Some (undecimal ds, rest) else None))"

text \<open>A string field is written as its length followed by its characters.\<close>

definition put_field :: "string \<Rightarrow> string" where
  "put_field s = put_nat (length s) @ s"

definition get_field :: "string \<Rightarrow> (string \<times> string) option" where
  "get_field inp =
     (case get_nat inp of
        None \<Rightarrow> None
      | Some (n, rest) \<Rightarrow> if n \<le> length rest then Some (take n rest, drop n rest) else None)"

fun put_value :: "jsvalue \<Rightarrow> string" where
  "put_value JUndefined = ''u''"
| "put_value JNull = ''n''"
| "put_value (JString s) = CHR ''s'' # put_field s"
| "put_value (JOther s) = CHR ''o'' # put_field s"

fun get_value :: "string \<Rightarrow> (jsvalue \<times> string) option" where
  "get_value [] = None"
| "get_value (c # rest) =
     (if c = CHR ''u'' then Some (JUndefined, rest)
      else if c = CHR ''n'' then Some (JNull, rest)
      else if c = CHR ''s'' then
        (case get_field rest of None \<Rightarrow> None | Some (s, r) \<Rightarrow> Some (JString s, r))
      else if c = CHR ''o'' then
        (case get_field rest of None \<Rightarrow> None | Some (s, r) \<Rightarrow> Some (JOther s, r))
      else None)"

fun put_entries :: "claims \<Rightarrow> string" where
  "put_entries [] = []"
| "put_entries ((k, v) # cs) = put_field k @ put_value v @ put_entries cs"

fun get_entries :: "nat \<Rightarrow> string \<Rightarrow> (claims \<times> string) option" where
  "get_entries 0 inp = Some ([], inp)"
| "get_entries (Suc n) inp =
     (case get_field inp of
        None \<Rightarrow> None
      | Some (k, r1) \<Rightarrow>
          (case get_value r1 of
             None \<Rightarrow> None
           | Some (v, r2) \<Rightarrow>
               (case get_entries n r2 of
                  None \<Rightarrow> None
                | Some (cs, r3) \<Rightarrow> Some ((k, v) # cs, r3))))"

definition put_claims :: "claims \<Rightarrow> string" where
  "put_claims cs = put_nat (length cs) @ put_entries cs"

definition get_claims :: "string \<Rightarrow> (claims \<times> string) option" where
  "get_claims inp =
     (case get_nat inp of None \<Rightarrow> None | Some (n, rest) \<Rightarrow> get_entries n rest)"

text \<open>The expiration: \<open>-\<close> when the token carries none, \<open>+\<close> and the time otherwise.\<close>

fun put_exp :: "nat option \<Rightarrow> string" where
  "put_exp None = ''-''"
| "put_exp (Some t) = CHR ''+'' # put_nat t"

fun get_exp :: "string \<Rightarrow> (nat option \<times> string) option" where
  "get_exp [] = None"
| "get_exp (c # rest) =
     (if c = CHR ''-'' then Some (None, rest)
      else if c = CHR ''+'' then
        (case get_nat rest of None \<Rightarrow> None | Some (t, r) \<Rightarrow> Some (Some t, r))
      else None)"

text \<open>The signed part of a token: the claims and the expiration.\<close>

definition encode_payload :: "claims \<Rightarrow> nat option \<Rightarrow> string" where
  "encode_payload cs ex = put_claims cs @ put_exp ex"

definition decode_payload :: "string \<Rightarrow> (claims \<times> nat option) option" where
  "decode_payload inp =
     (case get_claims inp of
        None \<Rightarrow> None
      | Some (cs, r1) \<Rightarrow>
          (case get_exp r1 of
             None \<Rightarrow> None
           | Some (ex, r2) \<Rightarrow> if r2 = [] then Some (cs, ex) else None))"

text \<open>
  Modelled from the spec: the Token Codec (\<open>jwt.sign\<close> and \<open>jwt.verify\<close> of the
  \<open>jsonwebtoken\<close> package, which is not among the sources). Following section 3 and 4.1,
  a token is the serialised claims and expiration followed by an integrity tag computed
  with the secret key; the expiration is the issue time plus \<open>expiresIn\<close> and is absent
  when \<open>expiresIn\<close> is. The tag function \<open>tag\<close> is a parameter.
\<close>

definition jwt_sign ::
  "(string \<Rightarrow> string \<Rightarrow> string) \<Rightarrow> claims \<Rightarrow> string \<Rightarrow> nat option \<Rightarrow> nat \<Rightarrow> string" where
  "jwt_sign tag cs secretKey expiresIn now =
     (let payload = encode_payload cs (map_option (\<lambda>d. now + d) expiresIn)
      in put_field payload @ tag secretKey payload)"

text \<open>
  Modelled from the spec: \<open>verify\<close> decodes the token (\<open>MalformedToken\<close> if it does not
  parse), recomputes the integrity tag with the secret key and compares
  (\<open>BadSignature\<close>), then fails with \<open>Expired\<close> if an expiration is present and has
  passed, and otherwise returns the claims.
\<close>

definition jwt_verify ::
  "(string \<Rightarrow> string \<Rightarrow> string) \<Rightarrow> string \<Rightarrow> string \<Rightarrow> nat \<Rightarrow> VerifyError + claims" where
  "jwt_verify tag token secretKey now =
     (case get_field token of
        None \<Rightarrow> Inl MalformedToken
      | Some (payload, t) \<Rightarrow>
          (case decode_payload payload of
             None \<Rightarrow> Inl MalformedToken
           | Some (cs, ex) \<Rightarrow>
               if t \<noteq> tag secretKey payload then Inl BadSignature
               else (case ex of
                       None \<Rightarrow> Inr cs
                     | Some e \<Rightarrow> if e \<le> now then Inl Expired else Inr cs)))"

definition Token_Codec :: "(string \<Rightarrow> string \<Rightarrow> string) \<Rightarrow> jwt" where
  "Token_Codec tag = \<lparr>sign = jwt_sign tag, verify = jwt_verify tag\<rparr>"

text \<open>
  A tag function for the closed examples below (the payload reversed, followed by the
  key reversed). It stands for the keyed hash of the library; no theorem depends on it
  except through those examples.
\<close>

definition example_tag :: "string \<Rightarrow> string \<Rightarrow> string" where
  "example_tag secretKey payload = rev payload @ rev secretKey"

section \<open>The server: \<open>server.js\<close>\<close>

record post =
  username :: string
  title :: string

definition posts :: "post list" where
  "posts =
     [\<lparr>username = ''Kyle'', title = ''Post 1''\<rparr>,
      \<lparr>username = ''Jim'', title = ''Post 2''\<rparr>,
      \<lparr>username = ''Ishan'', title = ''Post 3''\<rparr>]"

text \<open>The two secrets of \<open>process.env\<close>.\<close>

record env =
  ACCESS_TOKEN_SECRET :: string
  REFRESH_TOKEN_SECRET :: string

text \<open>
  The parts of a request the handlers read: the \<open>authorization\<close> header, the
  \<open>username\<close> and \<open>token\<close> properties of the JSON body, and \<open>req.user\<close>, which the
  authentication middleware sets.
\<close>

record request =
  authorization :: "string option"
  body_username :: jsvalue
  body_token :: jsvalue
  user :: "claims option"

datatype content =
    Send string
  | JsonPosts "post list"
  | JsonTokens string string
  | JsonAccessToken string

record response =
  status :: nat
  body :: content

text \<open>
  What a middleware does with a request: it sends a response, it calls \<open>next()\<close> with
  the request as it has changed it, it returns having done neither, or it throws.
\<close>

datatype outcome = Respond response | Next request | NoResponse | Thrown

definition authenticateToken :: "jwt \<Rightarrow> env \<Rightarrow> nat \<Rightarrow> request \<Rightarrow> outcome" where
  "authenticateToken J e now req =
     (let authHeader = authorization req;
          token = header_token authHeader
      in if loose_null token
         then Respond \<lparr>status = 401, body = Send ''You did not send a token with your request''\<rparr>
         else (case verify_value J token (ACCESS_TOKEN_SECRET e) now of
                 Inl err \<Rightarrow>
                   Respond \<lparr>status = 403,
                     body = Send ''You have a JWT token, but the token is no longer valid so you no longer have access''\<rparr>
               | Inr data \<Rightarrow> Next (req\<lparr>user := Some data\<rparr>)))"

definition generateAccessToken :: "jwt \<Rightarrow> env \<Rightarrow> nat \<Rightarrow> claims \<Rightarrow> string" where
  "generateAccessToken J e now userObject =
     sign J userObject (ACCESS_TOKEN_SECRET e) (Some 15) now"

text \<open>
  \<open>GET /posts\<close>, behind \<open>authenticateToken\<close>. Reading \<open>req.user.username\<close> without
  \<open>req.user\<close> would throw, which the framework answers with status 500.
\<close>

definition posts_handler :: "request \<Rightarrow> response" where
  "posts_handler req =
     (case user req of
        None \<Rightarrow> \<lparr>status = 500, body = Send ''TypeError''\<rparr>
      | Some u \<Rightarrow>
          \<lparr>status = 200,
           body = JsonPosts (filter (\<lambda>post. strict_eq (username post) (get_prop u ''username'')) posts)\<rparr>)"

definition get_posts :: "jwt \<Rightarrow> env \<Rightarrow> nat \<Rightarrow> request \<Rightarrow> response option" where
  "get_posts J e now req =
     (case authenticateToken J e now req of
        Respond r \<Rightarrow> Some r
      | Next req' \<Rightarrow> Some (posts_handler req')
      | NoResponse \<Rightarrow> None
      | Thrown \<Rightarrow> Some \<lparr>status = 500, body = Send ''Internal Server Error''\<rparr>)"

text \<open>
  \<open>POST /login\<close>: the state is \<open>refreshTokenList\<close>; the handler returns the new list
  and the response.
\<close>

definition post_login ::
  "jwt \<Rightarrow> env \<Rightarrow> nat \<Rightarrow> string list \<Rightarrow> request \<Rightarrow> string list \<times> response" where
  "post_login J e now refreshTokenList req =
     (let username = body_username req;
          userObject = [(''username'', username)];
          accessToken = generateAccessToken J e now userObject;
          refreshToken = sign J userObject (REFRESH_TOKEN_SECRET e) None now
      in (push refreshTokenList refreshToken,
          \<lparr>status = 200, body = JsonTokens accessToken refreshToken\<rparr>))"

text \<open>\<open>POST /createtoken\<close>: reads \<open>refreshTokenList\<close> and leaves it as it is.\<close>

definition post_createtoken ::
  "jwt \<Rightarrow> env \<Rightarrow> nat \<Rightarrow> string list \<Rightarrow> request \<Rightarrow> response" where
  "post_createtoken J e now refreshTokenList req =
     (let refreshToken = body_token req
      in if loose_null refreshToken
         then \<lparr>status = 401, body = Send ''Refresh token not sent in POST request''\<rparr>
         else if \<not> array_includes refreshTokenList refreshToken
         then \<lparr>status = 403,
                body = Send ''Refresh token that was sent is not a valid refresh token''\<rparr>
         else (case verify_value J refreshToken (REFRESH_TOKEN_SECRET e) now of
                 Inl err \<Rightarrow>
                   \<lparr>status = 403,
                    body = Send ''Error occured during verification of refresh token''\<rparr>
               | Inr data \<Rightarrow>
                   \<lparr>status = 200,
                    body = JsonAccessToken
                      (generateAccessToken J e now [(''username'', get_prop data ''username'')])\<rparr>))"

text \<open>\<open>DELETE /logout\<close>: keeps the tokens that are not \<open>req.body.token\<close>.\<close>

definition delete_logout :: "string list \<Rightarrow> request \<Rightarrow> string list \<times> response" where
  "delete_logout refreshTokenList req =
     (filter (\<lambda>token. \<not> strict_eq token (body_token req)) refreshTokenList,
      \<lparr>status = 204, body = Send ''Log out successful, associated JWT(s) deleted''\<rparr>)"

section \<open>The second source file\<close>

definition posts_part000 :: "post list" where
  "posts_part000 =
     [\<lparr>username = ''Kyle'', title = ''Post 1''\<rparr>,
      \<lparr>username = ''Jim'', title = ''Post 2''\<rparr>]"

text \<open>\<open>GET /post\<close> is registered without any middleware.\<close>

definition get_post_part000 :: "request \<Rightarrow> response" where
  "get_post_part000 req = \<lparr>status = 200, body = JsonPosts posts_part000\<rparr>"

text \<open>
  This file's \<open>authenticateToken\<close> compares the token with \<open>===\<close>, which only \<open>null\<close>
  itself satisfies, and calls \<open>jwt.verify\<close> without a callback: the call throws when
  verification fails, and otherwise its result is dropped and the function returns
  without a response and without \<open>next()\<close>. No route uses the function.
\<close>

definition authenticateToken_part000 :: "jwt \<Rightarrow> env \<Rightarrow> nat \<Rightarrow> request \<Rightarrow> outcome" where
  "authenticateToken_part000 J e now req =
     (let authHeader = authorization req;
          token = header_token authHeader
      in if token = JNull
         then Respond \<lparr>status = 400, body = Send ''Error''\<rparr>
         else (case verify_value J token (ACCESS_TOKEN_SECRET e) now of
                 Inl err \<Rightarrow> Thrown
               | Inr data \<Rightarrow> NoResponse))"

definition post_login_part000 :: "jwt \<Rightarrow> env \<Rightarrow> nat \<Rightarrow> request \<Rightarrow> response" where
  "post_login_part000 J e now req =
     (let username = body_username req;
          userObject = [(''name'', username)];
          accessToken = sign J userObject (ACCESS_TOKEN_SECRET e) None now
      in \<lparr>status = 200, body = JsonAccessToken accessToken\<rparr>)"

section \<open>The wording of the specification, for comparison\<close>

text \<open>
  Section 4.4 of the specification: a header of the form \<open>Bearer <token>\<close>, the token
  being what remains after the scheme prefix. A header that is absent, or present and
  not of this form, is what the specification calls absent or malformed.
\<close>

definition spec_bearer_form :: "string \<Rightarrow> bool" where
  "spec_bearer_form h = (take 7 h = ''Bearer '' \<and> drop 7 h \<noteq> [])"

definition spec_absent_or_malformed :: "string option \<Rightarrow> bool" where
  "spec_absent_or_malformed authHeader =
     (case authHeader of None \<Rightarrow> True | Some h \<Rightarrow> \<not> spec_bearer_form h)"

section \<open>Concrete data for the examples\<close>

definition example_jwt :: jwt where
  "example_jwt = Token_Codec example_tag"

definition example_env :: env where
  "example_env = \<lparr>ACCESS_TOKEN_SECRET = ''a1'', REFRESH_TOKEN_SECRET = ''r2''\<rparr>"

definition kyle :: claims where
  "kyle = [(''username'', JString ''Kyle'')]"

definition example_request :: request where
  "example_request =
     \<lparr>authorization = None, body_username = JString ''Kyle'', body_token = JUndefined,
      user = None\<rparr>"

text \<open>The refresh token and the access token that a login of Kyle at time 100 issues.\<close>

definition kyle_refresh :: string where
  "kyle_refresh = sign example_jwt kyle (REFRESH_TOKEN_SECRET example_env) None 100"

definition kyle_access :: string where
  "kyle_access = sign example_jwt kyle (ACCESS_TOKEN_SECRET example_env) (Some 15) 100"

text \<open>The \<open>refreshToken\<close> property of a login response.\<close>

definition issued_refreshToken :: "response \<Rightarrow> string option" where
  "issued_refreshToken r = (case body r of JsonTokens a rt \<Rightarrow> Some rt | _ \<Rightarrow> None)"

section \<open>Decimal numerals and fields: writing then reading\<close>

lemma digit_cases:
  "d < 10 \<Longrightarrow>
   d = 0 \<or> d = 1 \<or> d = 2 \<or> d = 3 \<or> d = 4 \<or> d = 5 \<or> d = 6 \<or> d = 7 \<or> d = 8 \<or> d = (9::nat)"
  by arith

lemma digit_char_is_digit: "d < 10 \<Longrightarrow> is_digit (digit_char d)"
  using digit_cases[of d] by (auto simp: is_digit_def digit_char_def)

lemma digit_val_char: "d < 10 \<Longrightarrow> digit_val (digit_char d) = d"
  using digit_cases[of d] by (auto simp: digit_val_def digit_char_def)

lemma decimal_digits: "c \<in> set (decimal n) \<Longrightarrow> is_digit c"
proof (induction n rule: decimal.induct)
  case (1 n)
  show ?case
  proof (cases "n < 10")
    case True
    with 1(2) show ?thesis by (simp add: decimal.simps[of n] digit_char_is_digit)
  next
    case False
    with 1 show ?thesis by (auto simp: decimal.simps[of n] digit_char_is_digit)
  qed
qed

lemma decimal_nonempty: "decimal n \<noteq> []"
  by (simp add: decimal.simps[of n])

lemma undecimal_decimal: "undecimal (decimal n) = n"
proof (induction n rule: decimal.induct)
  case (1 n)
  show ?case
  proof (cases "n < 10")
    case True
    then show ?thesis by (simp add: decimal.simps[of n] undecimal_def digit_val_char)
  next
    case False
    with 1 have "undecimal (decimal (n div 10)) = n div 10" by simp
    with False show ?thesis
      by (simp add: decimal.simps[of n] undecimal_def digit_val_char)
  qed
qed

lemma colon_not_digit: "\<not> is_digit (CHR '':'')"
  by (simp add: is_digit_def)

lemma takeWhile_decimal: "takeWhile is_digit (decimal n @ CHR '':'' # r) = decimal n"
  by (simp add: decimal_digits colon_not_digit)

lemma dropWhile_decimal: "dropWhile is_digit (decimal n @ CHR '':'' # r) = CHR '':'' # r"
  by (simp add: decimal_digits colon_not_digit)

lemma get_put_nat: "get_nat (put_nat n @ r) = Some (n, r)"
  by (simp add: get_nat_def put_nat_def takeWhile_decimal dropWhile_decimal
      decimal_nonempty undecimal_decimal)

lemma get_put_field: "get_field (put_field s @ r) = Some (s, r)"
  by (simp add: get_field_def put_field_def get_put_nat)

lemma get_put_value: "get_value (put_value v @ r) = Some (v, r)"
  by (cases v) (simp_all add: get_put_field)

lemma get_put_entries: "get_entries (length cs) (put_entries cs @ r) = Some (cs, r)"
proof (induction cs)
  case Nil
  show ?case by simp
next
  case (Cons kv cs)
  obtain k v where kv: "kv = (k, v)" by (cases kv)
  show ?case
    by (simp add: kv get_put_field get_put_value Cons.IH)
qed

lemma get_put_claims: "get_claims (put_claims cs @ r) = Some (cs, r)"
  by (simp add: get_claims_def put_claims_def get_put_nat get_put_entries)

lemma get_put_exp: "get_exp (put_exp ex @ r) = Some (ex, r)"
  by (cases ex) (simp_all add: get_put_nat)

lemma decode_encode_payload: "decode_payload (encode_payload cs ex) = Some (cs, ex)"
proof -
  have "get_exp (put_exp ex) = Some (ex, [])"
    using get_put_exp[of ex "[]"] by simp
  then show ?thesis
    by (simp add: decode_payload_def encode_payload_def get_put_claims)
qed

lemma sign_verify_field:
  "get_field (jwt_sign tag cs k ex t0) =
     Some (encode_payload cs (map_option (\<lambda>d. t0 + d) ex),
           tag k (encode_payload cs (map_option (\<lambda>d. t0 + d) ex)))"
  by (simp add: jwt_sign_def get_put_field Let_def)

section \<open>The token codec: round trip and expiration\<close>

text \<open>
  Claim C3. For all claims \<open>C\<close> and every secret key \<open>S\<close>, verifying a token produced
  by \<open>sign(C, S, {})\<close> with the same secret succeeds and returns exactly the claims
  \<open>C\<close>, at whatever times the token is signed and verified and for every tag function.
\<close>

theorem sign_verify_roundtrip:
  "jwt_verify tag (jwt_sign tag C S None t0) S t = Inr C"
  by (simp add: jwt_verify_def sign_verify_field decode_encode_payload)

text \<open>
  Claim C5. A token signed without \<open>expiresIn\<close> never fails with \<open>Expired\<close>, at any
  verification time and under any key; a token signed at time \<open>t0\<close> with
  \<open>expiresIn = d\<close> verifies to its claims at every time before \<open>t0 + d\<close> and fails
  with \<open>Expired\<close> at every time after \<open>t0 + d\<close>.
\<close>

theorem verify_expiration:
  "jwt_verify tag (jwt_sign tag C S None t0) S' t \<noteq> Inl Expired
   \<and> (t < t0 + d \<longrightarrow> jwt_verify tag (jwt_sign tag C S (Some d) t0) S t = Inr C)
   \<and> (t0 + d < t \<longrightarrow> jwt_verify tag (jwt_sign tag C S (Some d) t0) S t = Inl Expired)"
  by (simp add: jwt_verify_def sign_verify_field decode_encode_payload)

text \<open>
  The example of the specification: signed with \<open>expiresIn\<close> of one second, verified
  at once and two seconds later.
\<close>

theorem verify_expiration_witness:
  "(100::nat) < 100 + 1
   \<and> jwt_verify example_tag (jwt_sign example_tag kyle ''a1'' (Some 1) 100) ''a1'' 100 = Inr kyle
   \<and> (100::nat) + 1 < 102
   \<and> jwt_verify example_tag (jwt_sign example_tag kyle ''a1'' (Some 1) 100) ''a1'' 102 = Inl Expired
   \<and> jwt_verify example_tag (jwt_sign example_tag kyle ''r2'' None 100) ''r2'' 100000 \<noteq> Inl Expired"
  using verify_expiration [of example_tag kyle "''a1''" 100 "''a1''" 100 1]
        verify_expiration [of example_tag kyle "''a1''" 100 "''a1''" 102 1]
        verify_expiration [of example_tag kyle "''r2''" 100 "''r2''" 100000 1]
  by simp

section \<open>Splitting the header\<close>

lemma split_nonempty: "split sep s \<noteq> []"
  by (induction s) (auto split: list.splits)

lemma split_without_sep: "sep \<notin> set s \<Longrightarrow> split sep s = [s]"
  by (induction s) auto

lemma split_with_sep: "sep \<in> set s \<Longrightarrow> \<exists>w t ws. split sep s = w # t # ws"
proof (induction s)
  case Nil
  then show ?case by simp
next
  case (Cons c cs)
  show ?case
  proof (cases "c = sep")
    case True
    obtain t ws where "split sep cs = t # ws"
      using split_nonempty[of sep cs] by (cases "split sep cs") auto
    with True show ?thesis by simp
  next
    case False
    with Cons.prems have "sep \<in> set cs" by simp
    then obtain w t ws where "split sep cs = w # t # ws"
      using Cons.IH by blast
    with False show ?thesis by simp
  qed
qed

lemma header_token_not_null: "header_token a \<noteq> JNull"
  by (auto simp: header_token_def split: option.splits list.splits)

lemma header_token_undefined:
  "(header_token a = JUndefined) =
   (a = None \<or> (\<exists>h. a = Some h \<and> h \<noteq> [] \<and> CHR '' '' \<notin> set h))"
proof (cases a)
  case None
  then show ?thesis by (simp add: header_token_def)
next
  case (Some h)
  show ?thesis
  proof (cases "CHR '' '' \<in> set h")
    case True
    then obtain w t ws where "split (CHR '' '') h = w # t # ws"
      using split_with_sep by blast
    with True Some show ?thesis by (auto simp: header_token_def)
  next
    case False
    then have "split (CHR '' '') h = [h]" by (rule split_without_sep)
    with False Some show ?thesis by (simp add: header_token_def)
  qed
qed

lemma loose_null_header_token:
  "loose_null (header_token a) = (header_token a = JUndefined)"
  by (simp add: loose_null_def header_token_not_null)

lemma bearer_form_has_space: "spec_bearer_form h \<Longrightarrow> CHR '' '' \<in> set h"
proof -
  assume "spec_bearer_form h"
  then have "take 7 h = ''Bearer ''" by (simp add: spec_bearer_form_def)
  then have "CHR '' '' \<in> set (take 7 h)" by simp
  then show ?thesis by (rule in_set_takeD)
qed

section \<open>The authentication middleware of \<open>server.js\<close>\<close>

lemma authenticateToken_401:
  "(authenticateToken J e now req =
      Respond \<lparr>status = 401, body = Send ''You did not send a token with your request''\<rparr>) =
   (header_token (authorization req) = JUndefined)"
  by (auto simp: authenticateToken_def Let_def loose_null_header_token split: sum.splits)

lemma authenticateToken_verify_fails:
  "header_token (authorization req) = JString t \<Longrightarrow>
   verify J t (ACCESS_TOKEN_SECRET e) now = Inl err \<Longrightarrow>
   authenticateToken J e now req =
     Respond \<lparr>status = 403,
       body = Send ''You have a JWT token, but the token is no longer valid so you no longer have access''\<rparr>"
  by (simp add: authenticateToken_def Let_def loose_null_def verify_value_def)

lemma authenticateToken_verify_ok:
  "header_token (authorization req) = JString t \<Longrightarrow>
   verify J t (ACCESS_TOKEN_SECRET e) now = Inr data \<Longrightarrow>
   authenticateToken J e now req = Next (req\<lparr>user := Some data\<rparr>)"
  by (simp add: authenticateToken_def Let_def loose_null_def verify_value_def)

text \<open>
  Claim C2, as stated, at the header \<open>Basic abc\<close>: the header is present and not of
  the form \<open>Bearer <token>\<close>, and the middleware answers with status 403, not 401.
\<close>

theorem authenticateToken_malformed_header_counterexample:
  "spec_absent_or_malformed (Some ''Basic abc'')
   \<and> authenticateToken example_jwt example_env 100
        (example_request\<lparr>authorization := Some ''Basic abc''\<rparr>) =
       Respond \<lparr>status = 403,
         body = Send ''You have a JWT token, but the token is no longer valid so you no longer have access''\<rparr>"
  by code_simp

text \<open>
  The scheme word is never looked at: a valid access token behind \<open>Basic\<close> passes the
  middleware. An empty header goes to verification as the empty token and is answered
  with 403.
\<close>

lemma authenticateToken_scheme_unchecked:
  "spec_absent_or_malformed (Some (''Basic '' @ kyle_access))
   \<and> authenticateToken example_jwt example_env 100
        (example_request\<lparr>authorization := Some (''Basic '' @ kyle_access)\<rparr>) =
       Next (example_request\<lparr>authorization := Some (''Basic '' @ kyle_access), user := Some kyle\<rparr>)"
  by code_simp

lemma authenticateToken_empty_header:
  "authenticateToken example_jwt example_env 100 (example_request\<lparr>authorization := Some []\<rparr>) =
     Respond \<lparr>status = 403,
       body = Send ''You have a JWT token, but the token is no longer valid so you no longer have access''\<rparr>"
  by code_simp

text \<open>
  Claim C2, amended. The middleware of \<open>server.js\<close> answers 401 exactly when the
  \<open>authorization\<close> header is absent or is a non-empty string without a space, so
  that the split has no second piece; every such header is absent or malformed in the
  sense of the specification. For every other header the second piece goes to
  \<open>jwt.verify\<close>, and whenever that fails the answer is one and the same 403 response,
  whatever the error.
\<close>

theorem authenticateToken_rejections:
  "((authenticateToken J e now req =
       Respond \<lparr>status = 401, body = Send ''You did not send a token with your request''\<rparr>) =
    (authorization req = None \<or>
     (\<exists>h. authorization req = Some h \<and> h \<noteq> [] \<and> CHR '' '' \<notin> set h)))
   \<and> (authenticateToken J e now req =
         Respond \<lparr>status = 401, body = Send ''You did not send a token with your request''\<rparr> \<longrightarrow>
       spec_absent_or_malformed (authorization req))
   \<and> (header_token (authorization req) = JString t \<and>
       verify J t (ACCESS_TOKEN_SECRET e) now = Inl err \<longrightarrow>
       authenticateToken J e now req =
         Respond \<lparr>status = 403,
           body = Send ''You have a JWT token, but the token is no longer valid so you no longer have access''\<rparr>)"
proof (intro conjI impI)
  show "(authenticateToken J e now req =
       Respond \<lparr>status = 401, body = Send ''You did not send a token with your request''\<rparr>) =
    (authorization req = None \<or>
     (\<exists>h. authorization req = Some h \<and> h \<noteq> [] \<and> CHR '' '' \<notin> set h))"
    by (simp only: authenticateToken_401 header_token_undefined)
next
  assume "authenticateToken J e now req =
       Respond \<lparr>status = 401, body = Send ''You did not send a token with your request''\<rparr>"
  then have "header_token (authorization req) = JUndefined"
    by (simp only: authenticateToken_401)
  then have "authorization req = None \<or>
     (\<exists>h. authorization req = Some h \<and> h \<noteq> [] \<and> CHR '' '' \<notin> set h)"
    by (simp only: header_token_undefined)
  then show "spec_absent_or_malformed (authorization req)"
    using bearer_form_has_space by (auto simp: spec_absent_or_malformed_def)
next
  assume "header_token (authorization req) = JString t \<and>
       verify J t (ACCESS_TOKEN_SECRET e) now = Inl err"
  then show "authenticateToken J e now req =
         Respond \<lparr>status = 403,
           body = Send ''You have a JWT token, but the token is no longer valid so you no longer have access''\<rparr>"
    using authenticateToken_verify_fails by blast
qed

theorem authenticateToken_rejections_witness:
  "authorization example_request = None
   \<and> authenticateToken example_jwt example_env 100 example_request =
       Respond \<lparr>status = 401, body = Send ''You did not send a token with your request''\<rparr>
   \<and> spec_absent_or_malformed (authorization example_request)
   \<and> header_token (authorization (example_request\<lparr>authorization := Some ''Bearer abc''\<rparr>)) =
       JString ''abc''
   \<and> verify example_jwt ''abc'' (ACCESS_TOKEN_SECRET example_env) 100 = Inl MalformedToken
   \<and> authenticateToken example_jwt example_env 100
        (example_request\<lparr>authorization := Some ''Bearer abc''\<rparr>) =
       Respond \<lparr>status = 403,
         body = Send ''You have a JWT token, but the token is no longer valid so you no longer have access''\<rparr>"
proof -
  have a: "authorization example_request = None"
    by (simp add: example_request_def)
  have h: "header_token (authorization (example_request\<lparr>authorization := Some ''Bearer abc''\<rparr>)) =
       JString ''abc''"
    by (simp add: header_token_def)
  have v: "verify example_jwt ''abc'' (ACCESS_TOKEN_SECRET example_env) 100 = Inl MalformedToken"
    by code_simp
  show ?thesis
    using a h v
      authenticateToken_rejections [of example_jwt example_env 100 example_request]
      authenticateToken_rejections [of example_jwt example_env 100
         "example_request\<lparr>authorization := Some ''Bearer abc''\<rparr>" "''abc''" MalformedToken]
    by simp
qed

text \<open>
  When the token of the header verifies, the middleware of \<open>server.js\<close> sets
  \<open>req.user\<close> to the decoded claims and calls \<open>next()\<close> (lemma
  \<open>authenticateToken_verify_ok\<close> above). The middleware of the second source file
  never calls \<open>next()\<close>:
\<close>

lemma authenticateToken_part000_never_next:
  "authenticateToken_part000 J e now req \<noteq> Next req'"
  by (simp add: authenticateToken_part000_def Let_def split: sum.splits)

text \<open>
  Claim C6, in the second source file, at a request that carries Kyle's valid access
  token: the token verifies to Kyle's claims, and the middleware returns without a
  response, without \<open>req.user\<close> and without \<open>next()\<close>, where the middleware of
  \<open>server.js\<close> attaches the claims and proceeds.
\<close>

theorem guard_part000_drops_verified_request:
  "verify example_jwt kyle_access (ACCESS_TOKEN_SECRET example_env) 100 = Inr kyle
   \<and> authenticateToken_part000 example_jwt example_env 100
        (example_request\<lparr>authorization := Some (''Bearer '' @ kyle_access)\<rparr>) = NoResponse
   \<and> authenticateToken example_jwt example_env 100
        (example_request\<lparr>authorization := Some (''Bearer '' @ kyle_access)\<rparr>) =
       Next (example_request\<lparr>authorization := Some (''Bearer '' @ kyle_access), user := Some kyle\<rparr>)"
  by code_simp

section \<open>The posts routes\<close>

text \<open>
  \<open>GET /posts\<close> of \<open>server.js\<close>: 401 without a token, 403 when verification fails,
  and otherwise exactly the posts whose \<open>username\<close> is that of the verified claims.
\<close>

lemma get_posts_protected:
  "(header_token (authorization req) = JUndefined \<longrightarrow>
      get_posts J e now req =
        Some \<lparr>status = 401, body = Send ''You did not send a token with your request''\<rparr>)
   \<and> (header_token (authorization req) = JString t \<and>
       verify J t (ACCESS_TOKEN_SECRET e) now = Inl err \<longrightarrow>
      get_posts J e now req =
        Some \<lparr>status = 403,
          body = Send ''You have a JWT token, but the token is no longer valid so you no longer have access''\<rparr>)
   \<and> (header_token (authorization req) = JString t \<and>
       verify J t (ACCESS_TOKEN_SECRET e) now = Inr data \<longrightarrow>
      get_posts J e now req =
        Some \<lparr>status = 200,
          body = JsonPosts (filter (\<lambda>p. JString (username p) = get_prop data ''username'') posts)\<rparr>)"
  by (auto simp: get_posts_def authenticateToken_def Let_def loose_null_def verify_value_def
      posts_handler_def strict_eq_def eq_commute[of "JString _"])

lemma get_posts_kyle:
  "get_posts example_jwt example_env 100
     (example_request\<lparr>authorization := Some (''Bearer '' @ kyle_access)\<rparr>) =
   Some \<lparr>status = 200, body = JsonPosts [\<lparr>username = ''Kyle'', title = ''Post 1''\<rparr>]\<rparr>"
  by code_simp

text \<open>
  Claim C9, in the second source file, at a request without an \<open>authorization\<close>
  header: \<open>GET /post\<close> answers 200 with the posts of both users, where \<open>GET /posts\<close> of
  \<open>server.js\<close> answers 401.
\<close>

theorem get_post_part000_unguarded:
  "authorization example_request = None
   \<and> get_post_part000 example_request =
       \<lparr>status = 200,
        body = JsonPosts [\<lparr>username = ''Kyle'', title = ''Post 1''\<rparr>,
                          \<lparr>username = ''Jim'', title = ''Post 2''\<rparr>]\<rparr>
   \<and> get_posts example_jwt example_env 100 example_request =
       Some \<lparr>status = 401, body = Send ''You did not send a token with your request''\<rparr>"
  by code_simp

section \<open>Login\<close>

text \<open>
  Claim C4, as stated, at the login of Kyle in the second source file: the response
  holds an access token only, signed without expiration (it still verifies at time
  1000000), and no refresh token.
\<close>

theorem login_part000_counterexample:
  "post_login_part000 example_jwt example_env 100 example_request =
     \<lparr>status = 200,
      body = JsonAccessToken
        (sign example_jwt [(''name'', JString ''Kyle'')] (ACCESS_TOKEN_SECRET example_env) None 100)\<rparr>
   \<and> verify example_jwt
        (sign example_jwt [(''name'', JString ''Kyle'')] (ACCESS_TOKEN_SECRET example_env) None 100)
        (ACCESS_TOKEN_SECRET example_env) 1000000 = Inr [(''name'', JString ''Kyle'')]"
  by (simp add: post_login_part000_def Let_def example_request_def example_jwt_def
      Token_Codec_def jwt_verify_def sign_verify_field decode_encode_payload)

text \<open>
  Claim C4, amended to \<open>POST /login\<close> of \<open>server.js\<close>. For every login call, with
  the claims \<open>{ username }\<close> of the request body: the access token is signed with
  \<open>ACCESS_TOKEN_SECRET\<close> and an expiration of 15 seconds, the refresh token is signed
  with \<open>REFRESH_TOKEN_SECRET\<close> and no expiration, the refresh token is appended to
  \<open>refreshTokenList\<close>, where it is then found, and the response is 200 with both
  tokens.
\<close>

theorem login_issues_token_pair:
  "post_login J e now xs req =
     (push xs (sign J [(''username'', body_username req)] (REFRESH_TOKEN_SECRET e) None now),
      \<lparr>status = 200,
       body = JsonTokens
         (sign J [(''username'', body_username req)] (ACCESS_TOKEN_SECRET e) (Some 15) now)
         (sign J [(''username'', body_username req)] (REFRESH_TOKEN_SECRET e) None now)\<rparr>)
   \<and> array_includes (fst (post_login J e now xs req))
        (JString (sign J [(''username'', body_username req)] (REFRESH_TOKEN_SECRET e) None now))"
  by (simp add: post_login_def generateAccessToken_def Let_def push_def array_includes_def
      strict_eq_def)

section \<open>Renewal\<close>

text \<open>
  Claim C1. For every renewal request that presents a token (\<open>req.body.token\<close> is not
  \<open>null\<close> or \<open>undefined\<close>): if the token is not in \<open>refreshTokenList\<close>, the response
  is the 403 of an unregistered token, whatever the token library \<open>J\<close> and the clock;
  the response does not depend on \<open>jwt.verify\<close>, which is not called on this path.
\<close>

theorem createtoken_not_registered:
  "\<not> loose_null (body_token req) \<Longrightarrow>
   \<not> array_includes refreshTokenList (body_token req) \<Longrightarrow>
   post_createtoken J e now refreshTokenList req =
     \<lparr>status = 403, body = Send ''Refresh token that was sent is not a valid refresh token''\<rparr>"
  by (simp add: post_createtoken_def Let_def)

text \<open>
  Kyle's refresh token verifies under the refresh secret and is rejected all the same
  when the list does not hold it.
\<close>

theorem createtoken_not_registered_witness:
  "\<not> loose_null (body_token (example_request\<lparr>body_token := JString kyle_refresh\<rparr>))
   \<and> \<not> array_includes [''stale''] (body_token (example_request\<lparr>body_token := JString kyle_refresh\<rparr>))
   \<and> verify example_jwt kyle_refresh (REFRESH_TOKEN_SECRET example_env) 200 = Inr kyle
   \<and> post_createtoken example_jwt example_env 200 [''stale'']
        (example_request\<lparr>body_token := JString kyle_refresh\<rparr>) =
       \<lparr>status = 403, body = Send ''Refresh token that was sent is not a valid refresh token''\<rparr>"
proof -
  have n: "\<not> loose_null (body_token (example_request\<lparr>body_token := JString kyle_refresh\<rparr>))"
    by (simp add: loose_null_def)
  have a: "\<not> array_includes [''stale'']
             (body_token (example_request\<lparr>body_token := JString kyle_refresh\<rparr>))"
    by code_simp
  have v: "verify example_jwt kyle_refresh (REFRESH_TOKEN_SECRET example_env) 200 = Inr kyle"
    by code_simp
  show ?thesis
    using n a v createtoken_not_registered [OF n a, of example_jwt example_env 200]
    by simp
qed

text \<open>The other paths of the renewal handler.\<close>

lemma createtoken_missing:
  "loose_null (body_token req) \<Longrightarrow>
   post_createtoken J e now xs req =
     \<lparr>status = 401, body = Send ''Refresh token not sent in POST request''\<rparr>"
  by (simp add: post_createtoken_def Let_def)

lemma createtoken_registered:
  "body_token req = JString t \<Longrightarrow> t \<in> set xs \<Longrightarrow>
   post_createtoken J e now xs req =
     (case verify J t (REFRESH_TOKEN_SECRET e) now of
        Inl err \<Rightarrow>
          \<lparr>status = 403, body = Send ''Error occured during verification of refresh token''\<rparr>
      | Inr data \<Rightarrow>
          \<lparr>status = 200,
           body = JsonAccessToken
             (sign J [(''username'', get_prop data ''username'')] (ACCESS_TOKEN_SECRET e)
                (Some 15) now)\<rparr>)"
  by (auto simp: post_createtoken_def Let_def loose_null_def array_includes_def list_ex_iff
      strict_eq_def verify_value_def generateAccessToken_def split: sum.splits)

section \<open>The list of refresh tokens\<close>

lemma array_includes_set: "array_includes xs v = (\<exists>s \<in> set xs. v = JString s)"
  by (auto simp: array_includes_def list_ex_iff strict_eq_def)

lemma array_includes_string: "array_includes xs (JString s) = (s \<in> set xs)"
  by (auto simp: array_includes_set)

text \<open>
  Claim C7. Login registers by \<open>push\<close>; after \<open>push\<close> of a token \<open>R\<close> the list
  includes \<open>R\<close>; after a following logout with \<open>R\<close> it does not; a logout with a
  token (or any other value) that the list does not include leaves the list as it is;
  logout always answers 204; and a second logout with the same body changes nothing.
\<close>

theorem revocation_store_sequence:
  "fst (post_login J e now xs req) =
     push xs (sign J [(''username'', body_username req)] (REFRESH_TOKEN_SECRET e) None now)
   \<and> array_includes (push xs R) (JString R)
   \<and> \<not> array_includes (fst (delete_logout (push xs R) (req\<lparr>body_token := JString R\<rparr>))) (JString R)
   \<and> (\<not> array_includes xs (body_token req) \<longrightarrow> fst (delete_logout xs req) = xs)
   \<and> snd (delete_logout xs req) =
       \<lparr>status = 204, body = Send ''Log out successful, associated JWT(s) deleted''\<rparr>
   \<and> delete_logout (fst (delete_logout xs req)) req = delete_logout xs req"
proof (intro conjI impI)
  show "fst (post_login J e now xs req) =
     push xs (sign J [(''username'', body_username req)] (REFRESH_TOKEN_SECRET e) None now)"
    by (simp add: post_login_def Let_def)
  show "array_includes (push xs R) (JString R)"
    by (simp add: array_includes_string push_def)
  show "\<not> array_includes (fst (delete_logout (push xs R) (req\<lparr>body_token := JString R\<rparr>))) (JString R)"
    by (simp add: array_includes_string delete_logout_def strict_eq_def)
  show "snd (delete_logout xs req) =
       \<lparr>status = 204, body = Send ''Log out successful, associated JWT(s) deleted''\<rparr>"
    by (simp add: delete_logout_def)
  show "delete_logout (fst (delete_logout xs req)) req = delete_logout xs req"
    by (simp add: delete_logout_def)
next
  assume "\<not> array_includes xs (body_token req)"
  then have "\<forall>s \<in> set xs. \<not> strict_eq s (body_token req)"
    by (simp add: array_includes_set strict_eq_def)
  then show "fst (delete_logout xs req) = xs"
    by (simp add: delete_logout_def)
qed

theorem revocation_store_sequence_witness:
  "\<not> array_includes [''t1''] (body_token (example_request\<lparr>body_token := JString ''t2''\<rparr>))
   \<and> fst (delete_logout [''t1''] (example_request\<lparr>body_token := JString ''t2''\<rparr>)) = [''t1'']
   \<and> array_includes (push [''t1''] ''t2'') (JString ''t2'')
   \<and> \<not> array_includes
         (fst (delete_logout (push [''t1''] ''t2'') (example_request\<lparr>body_token := JString ''t2''\<rparr>)))
         (JString ''t2'')"
proof -
  have a: "\<not> array_includes [''t1''] (body_token (example_request\<lparr>body_token := JString ''t2''\<rparr>))"
    by code_simp
  show ?thesis
    using a revocation_store_sequence
      [of example_jwt example_env 100 "[''t1'']"
          "example_request\<lparr>body_token := JString ''t2''\<rparr>" "''t2''"]
    by simp
qed

text \<open>
  Claim C8, as stated, at a second login of Kyle at the same time: his refresh token
  is in the list already, and the login appends it again, so the list changes and
  holds the token twice.
\<close>

theorem register_duplicate_counterexample:
  "array_includes [kyle_refresh] (JString kyle_refresh)
   \<and> fst (post_login example_jwt example_env 100 [kyle_refresh] example_request) =
       [kyle_refresh, kyle_refresh]
   \<and> fst (post_login example_jwt example_env 100 [kyle_refresh] example_request) \<noteq> [kyle_refresh]
   \<and> \<not> distinct (fst (post_login example_jwt example_env 100 [kyle_refresh] example_request))"
  by code_simp

text \<open>
  Claim C8, amended. When the refresh token that a login issues is already in the
  list, the login leaves the set of listed tokens unchanged: \<open>includes\<close> answers the
  same for every value before and after. (The list itself grows by one entry.)
\<close>

theorem register_present_keeps_active_set:
  "array_includes xs
     (JString (sign J [(''username'', body_username req)] (REFRESH_TOKEN_SECRET e) None now)) \<Longrightarrow>
   set (fst (post_login J e now xs req)) = set xs
   \<and> array_includes (fst (post_login J e now xs req)) v = array_includes xs v"
  by (auto simp: post_login_def Let_def push_def array_includes_set)

theorem register_present_keeps_active_set_witness:
  "array_includes [kyle_refresh]
     (JString (sign example_jwt [(''username'', body_username example_request)]
        (REFRESH_TOKEN_SECRET example_env) None 100))
   \<and> set (fst (post_login example_jwt example_env 100 [kyle_refresh] example_request)) =
       set [kyle_refresh]
   \<and> array_includes (fst (post_login example_jwt example_env 100 [kyle_refresh] example_request))
        (JString kyle_refresh) = array_includes [kyle_refresh] (JString kyle_refresh)"
proof -
  have a: "array_includes [kyle_refresh]
     (JString (sign example_jwt [(''username'', body_username example_request)]
        (REFRESH_TOKEN_SECRET example_env) None 100))"
    by code_simp
  show ?thesis
    using a register_present_keeps_active_set [OF a, of "JString kyle_refresh"]
    by simp
qed

text \<open>
  Claim C10. The refresh token of a login is \<open>jwt.sign\<close> of the claims with the
  refresh secret and no options, so two logins with the same \<open>username\<close> at the same
  time issue the same refresh token, whatever the list holds. After two such logins
  the list holds the token at least twice, and a single logout with it removes every
  entry: the list no longer includes it.
\<close>

theorem refresh_token_deterministic:
  "body_username req2 = body_username req1 \<Longrightarrow>
   issued_refreshToken (snd (post_login J e now xs1 req1)) =
     Some (sign J [(''username'', body_username req1)] (REFRESH_TOKEN_SECRET e) None now)
   \<and> issued_refreshToken (snd (post_login J e now xs2 req2)) =
       issued_refreshToken (snd (post_login J e now xs1 req1))
   \<and> 2 \<le> count_list
            (fst (post_login J e now (fst (post_login J e now xs1 req1)) req2))
            (sign J [(''username'', body_username req1)] (REFRESH_TOKEN_SECRET e) None now)
   \<and> \<not> array_includes
         (fst (delete_logout
                (fst (post_login J e now (fst (post_login J e now xs1 req1)) req2))
                (req3\<lparr>body_token :=
                   JString (sign J [(''username'', body_username req1)]
                     (REFRESH_TOKEN_SECRET e) None now)\<rparr>)))
         (JString (sign J [(''username'', body_username req1)] (REFRESH_TOKEN_SECRET e) None now))"
  by (simp add: post_login_def Let_def issued_refreshToken_def push_def delete_logout_def
      array_includes_string strict_eq_def)

theorem refresh_token_deterministic_witness:
  "body_username (example_request\<lparr>authorization := Some ''x''\<rparr>) = body_username example_request
   \<and> issued_refreshToken (snd (post_login example_jwt example_env 100 [] example_request)) =
       Some kyle_refresh
   \<and> issued_refreshToken (snd (post_login example_jwt example_env 100 [''t1'']
         (example_request\<lparr>authorization := Some ''x''\<rparr>))) = Some kyle_refresh
   \<and> fst (post_login example_jwt example_env 100
            (fst (post_login example_jwt example_env 100 [] example_request))
            (example_request\<lparr>authorization := Some ''x''\<rparr>)) = [kyle_refresh, kyle_refresh]
   \<and> \<not> array_includes
         (fst (delete_logout
                (fst (post_login example_jwt example_env 100
                       (fst (post_login example_jwt example_env 100 [] example_request))
                       (example_request\<lparr>authorization := Some ''x''\<rparr>)))
                (example_request\<lparr>body_token := JString kyle_refresh\<rparr>)))
         (JString kyle_refresh)"
proof -
  have u: "body_username (example_request\<lparr>authorization := Some ''x''\<rparr>) =
             body_username example_request"
    by simp
  have k: "sign example_jwt [(''username'', body_username example_request)]
             (REFRESH_TOKEN_SECRET example_env) None 100 = kyle_refresh"
    by (simp add: kyle_refresh_def kyle_def example_request_def)
  have l: "fst (post_login example_jwt example_env 100
            (fst (post_login example_jwt example_env 100 [] example_request))
            (example_request\<lparr>authorization := Some ''x''\<rparr>)) = [kyle_refresh, kyle_refresh]"
    by (simp add: post_login_def Let_def push_def k)
  show ?thesis
    using u l
      refresh_token_deterministic
        [OF u, of example_jwt example_env 100 "[]" "[''t1'']" example_request]
      refresh_token_deterministic
        [OF u, of example_jwt example_env 100 "[]" "[]" example_request]
    by (simp add: k)
qed

end
